theory Spec2Isabelle
  imports Main
begin

text \<open>
  A model of \<open>server.js\<close>, the session manager of the WhatsApp bot service: the registry
  of active sessions, the handlers that \<open>createBotSession\<close> wires to a socket, the
  heartbeat timer, the webhook notifier and the two mutating endpoints of the control API.
  Every handler is a function from the state of the process to a result and a new state.
  A handler is run to its end as one step; what the outside world answers to the calls it
  awaits is an argument of the step. \<open>createBotSession\<close> is given a second time, cut at its
  \<open>await\<close>s, so that the registry can be read at each point where the function is
  suspended; the two agree.
\<close>

section \<open>JavaScript values the service handles\<close>

text \<open>
  A thrown JavaScript error carries a message. Every call that can throw or reject
  returns \<open>js_error + 'a\<close>, with \<open>Inl\<close> the error; an \<open>await\<close> of such a call
  passes the error on unless a \<open>try\<close>/\<open>catch\<close> stands around it.
\<close>

datatype js_error = Error string | TypeError string

fun err_message :: "js_error \<Rightarrow> string" where
  "err_message (Error m) = m"
| "err_message (TypeError m) = m"

text \<open>Truthiness of a value that is a string or \<open>undefined\<close>: \<open>if (v)\<close>, \<open>!v\<close>, \<open>a || b\<close>.\<close>

definition truthy :: "string option \<Rightarrow> bool" where
  "truthy v = (case v of None \<Rightarrow> False | Some s \<Rightarrow> s \<noteq> [])"

definition js_or :: "string option \<Rightarrow> string option \<Rightarrow> string option" where
  "js_or a b = (if truthy a then a else b)"

text \<open>\<open>String.prototype.split\<close> with a one-character separator: the result is never empty.\<close>

fun split :: "char \<Rightarrow> string \<Rightarrow> string list" where
  "split c [] = [[]]"
| "split c (x # xs) =
     (if x = c then [] # split c xs
      else (case split c xs of [] \<Rightarrow> [[x]] | y # ys \<Rightarrow> (x # y) # ys))"

section \<open>Data of the connection client and of the backend\<close>

text \<open>
  Objects are records with the field names of the source; a property that may be missing
  is an \<open>option\<close>, so that \<open>a?.b\<close> is \<open>Option.bind\<close>. A \<open>sessionId\<close> is a string. The
  \<open>fromMe\<close> flag of a message key is \<open>False\<close> when the key does not carry it.
\<close>

record contact =
  user_id :: string
  user_name :: "string option"

text \<open>
  The socket made by \<open>makeWASocket\<close>: an object identity and its \<open>user\<close> property, which is
  undefined until the account is authenticated.
\<close>

record sock =
  sock_ref :: nat
  user :: "contact option"

record boom_output =
  statusCode :: "int option"

record boom =
  err_output :: "boom_output option"

record last_disconnect =
  error :: "boom option"

record update =
  connection :: "string option"
  lastDisconnect :: "last_disconnect option"
  qr :: "string option"

record message_key =
  fromMe :: bool
  remoteJid :: string

record extended_text =
  ext_text :: "string option"

record content =
  conversation :: "string option"
  extendedTextMessage :: "extended_text option"

record wa_message =
  key :: message_key
  message :: "content option"

record upsert =
  messages :: "wa_message list"

record phoneInfo =
  jid :: string
  name :: "string option"
  phone :: string

text \<open>The JSON bodies posted to the backend, one constructor per object shape.\<close>

datatype payload =
    QrUpdate string string
  | ConnectionUpdate string string "phoneInfo option"
  | IncomingMessage string string string
  | Heartbeat string

record reply_body =
  reply :: "string option"

record response =
  data :: "reply_body option"

datatype api_body = ErrorBody string | MessageBody string string

record api_response =
  status :: nat
  body :: api_body

section \<open>Effects and the state of the process\<close>

text \<open>
  Every call that leaves the process is recorded, in call order: HTTP posts with their URL,
  body and timeout option, log lines, calls on a socket, calls of the client library and
  the removal of a credential directory.
\<close>

datatype effect =
    HttpPost string payload "nat option"
  | LogInfo string
  | LogError string
  | SendMessage sock string string
  | Logout sock
  | FsRm string bool bool
  | UseMultiFileAuthState string
  | FetchLatestBaileysVersion
  | MakeWASocket
  | EvOn sock string
  | ToDataURL string

record timer =
  handle :: nat
  delay_ms :: nat
  timer_sid :: string

text \<open>
  \<open>activeSessions\<close> is the \<open>Map\<close> of the source, kept in insertion order. \<open>intervals\<close> are the
  live \<open>setInterval\<close> timers and \<open>timeouts\<close> the pending \<open>setTimeout\<close> callbacks, each with
  the \<open>sessionId\<close> its closure captured.
\<close>

record state =
  activeSessions :: "(string \<times> sock) list"
  intervals :: "timer list"
  timeouts :: "timer list"
  next_handle :: nat
  trace :: "effect list"

text \<open>
  What the outside answers during one handler run: the environment variable, the backend,
  the client library, the QR encoder, the socket operations and the file system.
\<close>

record world =
  env_LARAVEL_URL :: "string option"
  axios_post :: "string \<Rightarrow> payload \<Rightarrow> js_error + response"
  useMultiFileAuthState :: "string \<Rightarrow> js_error + string"
  fetchLatestBaileysVersion :: "js_error + nat list"
  makeWASocket :: "nat list \<Rightarrow> string \<Rightarrow> js_error + sock"
  ev_on :: "sock \<Rightarrow> string \<Rightarrow> js_error + unit"
  toDataURL :: "string \<Rightarrow> js_error + string"
  sendMessage :: "sock \<Rightarrow> string \<Rightarrow> string \<Rightarrow> js_error + unit"
  logout :: "sock \<Rightarrow> js_error + unit"
  fsp_rm :: "string \<Rightarrow> js_error + unit"

definition LARAVEL_URL :: "world \<Rightarrow> string" where
  "LARAVEL_URL w =
     (case js_or (env_LARAVEL_URL w) (Some ''http://localhost:8000'') of
        None \<Rightarrow> [] | Some u \<Rightarrow> u)"

text \<open>\<open>DisconnectReason.loggedOut\<close> of the client library is the status code 401.\<close>

definition DisconnectReason_loggedOut :: int where
  "DisconnectReason_loggedOut = 401"

definition emit :: "effect \<Rightarrow> state \<Rightarrow> state" where
  "emit e s = s\<lparr>trace := trace s @ [e]\<rparr>"

text \<open>An awaited external call: the effect is recorded and the outcome handed back.\<close>

definition call :: "effect \<Rightarrow> js_error + 'a \<Rightarrow> state \<Rightarrow> (js_error + 'a) \<times> state" where
  "call e r s = (r, emit e s)"

text \<open>
  Sequencing of awaited statements: an error of the first part ends the block.
  \<open>try_catch\<close> is a \<open>try\<close> block with its \<open>catch\<close> handler.
\<close>

definition then_js ::
  "(js_error + 'a) \<times> state \<Rightarrow> ('a \<Rightarrow> state \<Rightarrow> (js_error + 'b) \<times> state) \<Rightarrow> (js_error + 'b) \<times> state" where
  "then_js r f = (case r of (Inl e, s) \<Rightarrow> (Inl e, s) | (Inr v, s) \<Rightarrow> f v s)"

definition try_catch ::
  "(js_error + 'a) \<times> state \<Rightarrow> (js_error \<Rightarrow> state \<Rightarrow> (js_error + 'a) \<times> state) \<Rightarrow> (js_error + 'a) \<times> state" where
  "try_catch r h = (case r of (Inl e, s) \<Rightarrow> h e s | (Inr v, s) \<Rightarrow> (Inr v, s))"

subsection \<open>The registry: \<open>Map.prototype.has\<close>, \<open>get\<close>, \<open>set\<close>, \<open>delete\<close>\<close>

definition map_get :: "string \<Rightarrow> (string \<times> sock) list \<Rightarrow> sock option" where
  "map_get k m = map_of m k"

definition map_has :: "string \<Rightarrow> (string \<times> sock) list \<Rightarrow> bool" where
  "map_has k m = (map_of m k \<noteq> None)"

fun map_set :: "string \<Rightarrow> sock \<Rightarrow> (string \<times> sock) list \<Rightarrow> (string \<times> sock) list" where
  "map_set k v [] = [(k, v)]"
| "map_set k v (p # ps) = (if fst p = k then (k, v) # ps else p # map_set k v ps)"

definition map_delete :: "string \<Rightarrow> (string \<times> sock) list \<Rightarrow> (string \<times> sock) list" where
  "map_delete k m = filter (\<lambda>p. fst p \<noteq> k) m"

section \<open>The webhook notifier\<close>

definition sendWebhook :: "world \<Rightarrow> string \<Rightarrow> payload \<Rightarrow> state \<Rightarrow> (js_error + unit) \<times> state" where
  "sendWebhook w endpoint dat s =
     try_catch
       (then_js (call (HttpPost (LARAVEL_URL w @ endpoint) dat (Some 5000))
                   (axios_post w (LARAVEL_URL w @ endpoint) dat) s)
          (\<lambda>_ s1. (Inr (), s1)))
       (\<lambda>e s1. (Inr (), emit (LogError (''Webhook failed '' @ endpoint @ '': '' @ err_message e)) s1))"

section \<open>The liveness ping\<close>

definition startHeartbeat :: "string \<Rightarrow> state \<Rightarrow> state" where
  "startHeartbeat sessionId s =
     s\<lparr>intervals := intervals s @ [\<lparr>handle = next_handle s, delay_ms = 30000, timer_sid = sessionId\<rparr>],
       next_handle := Suc (next_handle s)\<rparr>"

definition clearInterval :: "nat \<Rightarrow> state \<Rightarrow> state" where
  "clearInterval h s = s\<lparr>intervals := filter (\<lambda>t. handle t \<noteq> h) (intervals s)\<rparr>"

text \<open>The callback that \<open>startHeartbeat\<close> hands to \<open>setInterval\<close>, run for the timer \<open>t\<close>.\<close>

definition heartbeat_tick :: "world \<Rightarrow> timer \<Rightarrow> state \<Rightarrow> (js_error + unit) \<times> state" where
  "heartbeat_tick w t s =
     (if \<not> map_has (timer_sid t) (activeSessions s) then (Inr (), clearInterval (handle t) s)
      else try_catch
             (sendWebhook w ''/api/webhook/wa/heartbeat'' (Heartbeat (timer_sid t)) s)
             (\<lambda>e s1. (Inr (), emit (LogError (''Heartbeat failed for '' @ timer_sid t @ '':'')) s1)))"

section \<open>Forwarding an inbound message\<close>

definition messageText :: "wa_message \<Rightarrow> string" where
  "messageText msg =
     (case js_or (js_or (Option.bind (message msg) conversation)
                        (Option.bind (Option.bind (message msg) extendedTextMessage) ext_text))
                 (Some []) of
        None \<Rightarrow> [] | Some t \<Rightarrow> t)"

definition forwardToLaravel :: "world \<Rightarrow> sock \<Rightarrow> wa_message \<Rightarrow> string \<Rightarrow> state \<Rightarrow> (js_error + unit) \<times> state" where
  "forwardToLaravel w sk msg sessionId s =
     try_catch
       (let sender = remoteJid (key msg) in
        then_js (call (HttpPost (LARAVEL_URL w @ ''/api/webhook/wa/incoming-message'')
                         (IncomingMessage sessionId sender (messageText msg)) None)
                   (axios_post w (LARAVEL_URL w @ ''/api/webhook/wa/incoming-message'')
                      (IncomingMessage sessionId sender (messageText msg))) s)
          (\<lambda>resp s1.
             let s2 = emit (LogInfo (''Forwarded message from '' @ sender @ '': '' @ messageText msg)) s1;
                 rp = Option.bind (data resp) reply
             in if truthy rp then call (SendMessage sk sender (the rp)) (sendMessage w sk sender (the rp)) s2
                else (Inr (), s2)))
       (\<lambda>e s1. (Inr (), emit (LogError (''Failed to get reply from Laravel: '' @ err_message e)) s1))"

section \<open>Creating a session and handling its events\<close>

definition setTimeout :: "string \<Rightarrow> nat \<Rightarrow> state \<Rightarrow> state" where
  "setTimeout sessionId ms s =
     s\<lparr>timeouts := timeouts s @ [\<lparr>handle = next_handle s, delay_ms = ms, timer_sid = sessionId\<rparr>],
       next_handle := Suc (next_handle s)\<rparr>"

definition statusCode_of :: "last_disconnect option \<Rightarrow> int option" where
  "statusCode_of ld = Option.bind (Option.bind (Option.bind ld error) err_output) statusCode"

text \<open>The \<open>if (qr)\<close> block at the head of the \<open>connection.update\<close> handler.\<close>

definition qr_step :: "world \<Rightarrow> string \<Rightarrow> update \<Rightarrow> state \<Rightarrow> (js_error + unit) \<times> state" where
  "qr_step w sessionId u s =
     (if truthy (qr u) then
        then_js (call (ToDataURL (the (qr u))) (toDataURL w (the (qr u))) s)
          (\<lambda>qrCode s1. sendWebhook w ''/api/webhook/wa/qr-update'' (QrUpdate sessionId qrCode) s1)
      else (Inr (), s))"

text \<open>The branch \<open>connection === "close"\<close>.\<close>

definition close_branch :: "world \<Rightarrow> string \<Rightarrow> update \<Rightarrow> state \<Rightarrow> (js_error + unit) \<times> state" where
  "close_branch w sessionId u s =
     (let shouldReconnect = (statusCode_of (lastDisconnect u) \<noteq> Some DisconnectReason_loggedOut) in
      then_js (sendWebhook w ''/api/webhook/wa/connection-update''
                 (ConnectionUpdate sessionId ''disconnected'' None) s)
        (\<lambda>_ s1.
           if shouldReconnect then
             (Inr (), setTimeout sessionId 3000
                        (emit (LogInfo (''Reconnecting session '' @ sessionId @ ''...'')) s1))
           else (Inr (), s1\<lparr>activeSessions := map_delete sessionId (activeSessions s1)\<rparr>)))"

text \<open>
  The branch \<open>connection === "open"\<close>. Reading \<open>sock.user.id\<close> while \<open>sock.user\<close> is
  undefined throws a TypeError, which nothing in the handler catches.
\<close>

definition open_branch :: "world \<Rightarrow> string \<Rightarrow> sock \<Rightarrow> state \<Rightarrow> (js_error + unit) \<times> state" where
  "open_branch w sessionId sk s =
     (let s1 = emit (LogInfo (''Session '' @ sessionId @ '' connected successfully'')) s in
      case user sk of
        None \<Rightarrow> (Inl (TypeError ''Cannot read properties of undefined''), s1)
      | Some u \<Rightarrow>
          then_js (sendWebhook w ''/api/webhook/wa/connection-update''
                     (ConnectionUpdate sessionId ''connected''
                        (Some \<lparr>jid = user_id u, name = user_name u,
                               phone = hd (split CHR '':'' (user_id u))\<rparr>)) s1)
            (\<lambda>_ s2. (Inr (), startHeartbeat sessionId s2)))"

definition on_connection_update ::
  "world \<Rightarrow> string \<Rightarrow> sock \<Rightarrow> update \<Rightarrow> state \<Rightarrow> (js_error + unit) \<times> state" where
  "on_connection_update w sessionId sk u s =
     then_js (qr_step w sessionId u s)
       (\<lambda>_ s1.
          if connection u = Some ''close'' then close_branch w sessionId u s1
          else if connection u = Some ''open'' then open_branch w sessionId sk s1
          else (Inr (), s1))"

text \<open>
  The \<open>messages.upsert\<close> handler. \<open>m.messages[0]\<close> of an empty batch is undefined, and
  reading its \<open>key\<close> throws.
\<close>

definition on_messages_upsert ::
  "world \<Rightarrow> string \<Rightarrow> sock \<Rightarrow> upsert \<Rightarrow> state \<Rightarrow> (js_error + unit) \<times> state" where
  "on_messages_upsert w sessionId sk m s =
     (case messages m of
        [] \<Rightarrow> (Inl (TypeError ''Cannot read properties of undefined''), s)
      | msg # _ \<Rightarrow>
          if \<not> fromMe (key msg) \<and> message msg \<noteq> None
          then forwardToLaravel w sk msg sessionId s
          else (Inr (), s))"

text \<open>The body of the \<open>try\<close> block of \<open>createBotSession\<close>, up to \<open>return sock\<close>.\<close>

definition createBotSession_try :: "world \<Rightarrow> string \<Rightarrow> state \<Rightarrow> (js_error + sock) \<times> state" where
  "createBotSession_try w sessionId s =
     then_js (call (UseMultiFileAuthState (''./sessions/'' @ sessionId))
                (useMultiFileAuthState w (''./sessions/'' @ sessionId)) s)
    (\<lambda>auth s. then_js (call FetchLatestBaileysVersion (fetchLatestBaileysVersion w) s)
    (\<lambda>version s. then_js (call MakeWASocket (makeWASocket w version auth) s)
    (\<lambda>sk s. then_js (call (EvOn sk ''connection.update'') (ev_on w sk ''connection.update'') s)
    (\<lambda>_ s. then_js (call (EvOn sk ''creds.update'') (ev_on w sk ''creds.update'') s)
    (\<lambda>_ s. then_js (call (EvOn sk ''messages.upsert'') (ev_on w sk ''messages.upsert'') s)
    (\<lambda>_ s. (Inr sk, s\<lparr>activeSessions := map_set sessionId sk (activeSessions s)\<rparr>)))))))"

definition createBotSession :: "world \<Rightarrow> string \<Rightarrow> state \<Rightarrow> (js_error + sock option) \<times> state" where
  "createBotSession w sessionId s =
     try_catch
       (then_js (createBotSession_try w sessionId s) (\<lambda>sk s1. (Inr (Some sk), s1)))
       (\<lambda>e s1.
          then_js (sendWebhook w ''/api/webhook/wa/connection-update''
                     (ConnectionUpdate sessionId ''disconnected'' None)
                     (emit (LogError (''Error creating session '' @ sessionId @ '':'')) s1))
            (\<lambda>_ s2. (Inr None, s2)))"

subsection \<open>\<open>createBotSession\<close> between its suspension points\<close>

text \<open>
  An \<open>async\<close> function runs until its next \<open>await\<close> and then gives control back to the
  event loop. \<open>createBotSession\<close> can be suspended at three places: at
  \<open>await useMultiFileAuthState(...)\<close>, at \<open>await fetchLatestBaileysVersion()\<close> (holding the
  loaded credentials), and, in the \<open>catch\<close> block, at \<open>await sendWebhook(...)\<close>, whose post
  is then in flight. \<open>createBotSession_begin\<close> is the first tick, the call itself;
  \<open>createBotSession_resume\<close> is the tick that runs when the awaited promise settles, with
  the outcome read from the world; \<open>drive n\<close> runs \<open>n\<close> such ticks.
\<close>

datatype create_task =
    AwaitAuthState string
  | AwaitVersion string string
  | AwaitWebhook string
  | Returned "sock option"


text \<open>The statements after the second \<open>await\<close>, from \<open>makeWASocket\<close> to \<open>return sock\<close>.\<close>

definition createBotSession_sync ::
  "world \<Rightarrow> string \<Rightarrow> nat list \<Rightarrow> string \<Rightarrow> state \<Rightarrow> (js_error + sock) \<times> state" where
  "createBotSession_sync w sessionId version auth s =
     then_js (call MakeWASocket (makeWASocket w version auth) s)
    (\<lambda>sk s. then_js (call (EvOn sk ''connection.update'') (ev_on w sk ''connection.update'') s)
    (\<lambda>_ s. then_js (call (EvOn sk ''creds.update'') (ev_on w sk ''creds.update'') s)
    (\<lambda>_ s. then_js (call (EvOn sk ''messages.upsert'') (ev_on w sk ''messages.upsert'') s)
    (\<lambda>_ s. (Inr sk, s\<lparr>activeSessions := map_set sessionId sk (activeSessions s)\<rparr>)))))"

text \<open>Entering the \<open>catch\<close> block: the error is logged and the webhook's post is started.\<close>

definition createBotSession_catch :: "world \<Rightarrow> string \<Rightarrow> state \<Rightarrow> create_task \<times> state" where
  "createBotSession_catch w sessionId s =
     (AwaitWebhook sessionId,
      emit (HttpPost (LARAVEL_URL w @ ''/api/webhook/wa/connection-update'')
              (ConnectionUpdate sessionId ''disconnected'' None) (Some 5000))
        (emit (LogError (''Error creating session '' @ sessionId @ '':'')) s))"

fun createBotSession_resume :: "world \<Rightarrow> create_task \<Rightarrow> state \<Rightarrow> create_task \<times> state" where
  "createBotSession_resume w (AwaitAuthState sessionId) s =
     (case useMultiFileAuthState w (''./sessions/'' @ sessionId) of
        Inl e \<Rightarrow> createBotSession_catch w sessionId s
      | Inr auth \<Rightarrow> (AwaitVersion sessionId auth, emit FetchLatestBaileysVersion s))"
| "createBotSession_resume w (AwaitVersion sessionId auth) s =
     (case fetchLatestBaileysVersion w of
        Inl e \<Rightarrow> createBotSession_catch w sessionId s
      | Inr version \<Rightarrow>
          (case createBotSession_sync w sessionId version auth s of
             (Inl e, s1) \<Rightarrow> createBotSession_catch w sessionId s1
           | (Inr sk, s1) \<Rightarrow> (Returned (Some sk), s1)))"
| "createBotSession_resume w (AwaitWebhook sessionId) s =
     (Returned None,
      case axios_post w (LARAVEL_URL w @ ''/api/webhook/wa/connection-update'')
             (ConnectionUpdate sessionId ''disconnected'' None) of
        Inl e \<Rightarrow>
          emit (LogError (''Webhook failed /api/webhook/wa/connection-update: '' @ err_message e)) s
      | Inr _ \<Rightarrow> s)"
| "createBotSession_resume w (Returned r) s = (Returned r, s)"

fun drive :: "nat \<Rightarrow> world \<Rightarrow> create_task \<times> state \<Rightarrow> create_task \<times> state" where
  "drive 0 w ts = ts"
| "drive (Suc n) w ts = drive n w (createBotSession_resume w (fst ts) (snd ts))"

section \<open>The control API\<close>

text \<open>\<open>POST /bot/create\<close>; the argument is \<open>req.body.sessionId\<close>.\<close>

definition bot_create :: "world \<Rightarrow> string option \<Rightarrow> state \<Rightarrow> (js_error + api_response) \<times> state" where
  "bot_create w sessionId s =
     (if \<not> truthy sessionId then
        (Inr \<lparr>status = 400, body = ErrorBody ''Session ID required''\<rparr>, s)
      else if map_has (the sessionId) (activeSessions s) then
        (Inr \<lparr>status = 400, body = ErrorBody ''Session already exists''\<rparr>, s)
      else
        then_js (createBotSession w (the sessionId)
                   (emit (LogInfo (''Creating bot session: '' @ the sessionId)) s))
          (\<lambda>_ s1. (Inr \<lparr>status = 200,
                         body = MessageBody ''Bot session creation initiated'' (the sessionId)\<rparr>, s1)))"

text \<open>\<open>POST /bot/destroy\<close>.\<close>

definition bot_destroy :: "world \<Rightarrow> string option \<Rightarrow> state \<Rightarrow> (js_error + api_response) \<times> state" where
  "bot_destroy w sessionId s =
     (if \<not> truthy sessionId then
        (Inr \<lparr>status = 400, body = ErrorBody ''Session ID required''\<rparr>, s)
      else
        then_js
          (case map_get (the sessionId) (activeSessions s) of
             None \<Rightarrow> (Inr (), s)
           | Some sk \<Rightarrow>
               then_js
                 (try_catch (call (Logout sk) (logout w sk) s)
                    (\<lambda>e s1. (Inr (), emit (LogError (''Error logging out session '' @ the sessionId @ '':'')) s1)))
                 (\<lambda>_ s1. (Inr (), s1\<lparr>activeSessions := map_delete (the sessionId) (activeSessions s1)\<rparr>)))
       (\<lambda>_ s1. then_js
          (try_catch (call (FsRm (''./sessions/'' @ the sessionId) True True)
                        (fsp_rm w (''./sessions/'' @ the sessionId)) s1)
             (\<lambda>e s2. (Inr (), emit (LogError (''Error cleaning session files '' @ the sessionId @ '':'')) s2)))
       (\<lambda>_ s2. (Inr \<lparr>status = 200, body = MessageBody ''Bot session destroyed'' (the sessionId)\<rparr>,
                 emit (LogInfo (''Bot session destroyed: '' @ the sessionId)) s2))))"

section \<open>The process as a state machine\<close>

text \<open>
  One event is one callback of the event loop, run to its end: a request of the control
  API, an event that a socket emits to the handlers \<open>createBotSession\<close> registered for it
  (with the \<open>sessionId\<close> and the socket those closures captured), the firing of a live
  interval timer, or the firing of a pending timeout, whose callback is
  \<open>createBotSession(sessionId)\<close>. A handle that is not live fires nothing.
\<close>

datatype event =
    PostBotCreate "string option"
  | PostBotDestroy "string option"
  | ConnectionUpdateEvent string sock update
  | MessagesUpsertEvent string sock upsert
  | IntervalFires nat
  | TimeoutFires nat

fun step :: "world \<Rightarrow> event \<Rightarrow> state \<Rightarrow> state" where
  "step w (PostBotCreate sessionId) s = snd (bot_create w sessionId s)"
| "step w (PostBotDestroy sessionId) s = snd (bot_destroy w sessionId s)"
| "step w (ConnectionUpdateEvent sessionId sk u) s = snd (on_connection_update w sessionId sk u s)"
| "step w (MessagesUpsertEvent sessionId sk m) s = snd (on_messages_upsert w sessionId sk m s)"
| "step w (IntervalFires h) s =
     (case find (\<lambda>t. handle t = h) (intervals s) of
        None \<Rightarrow> s
      | Some t \<Rightarrow> snd (heartbeat_tick w t s))"
| "step w (TimeoutFires h) s =
     (case find (\<lambda>t. handle t = h) (timeouts s) of
        None \<Rightarrow> s
      | Some t \<Rightarrow>
          snd (createBotSession w (timer_sid t)
                 (s\<lparr>timeouts := filter (\<lambda>t. handle t \<noteq> h) (timeouts s)\<rparr>)))"

fun run :: "(world \<times> event) list \<Rightarrow> state \<Rightarrow> state" where
  "run [] s = s"
| "run ((w, e) # es) s = run es (step w e s)"

definition init_state :: state where
  "init_state = \<lparr>activeSessions = [], intervals = [], timeouts = [], next_handle = 0, trace = []\<rparr>"

text \<open>The HTTP posts of a trace, in order, and the heartbeats among them for one session.\<close>

fun posts :: "effect list \<Rightarrow> (string \<times> payload \<times> nat option) list" where
  "posts [] = []"
| "posts (HttpPost u p t # es) = (u, p, t) # posts es"
| "posts (_ # es) = posts es"

definition heartbeats :: "string \<Rightarrow> effect list \<Rightarrow> (string \<times> payload \<times> nat option) list" where
  "heartbeats sessionId tr = filter (\<lambda>x. fst (snd x) = Heartbeat sessionId) (posts tr)"

fun sends :: "effect list \<Rightarrow> (sock \<times> string \<times> string) list" where
  "sends [] = []"
| "sends (SendMessage sk to txt # es) = (sk, to, txt) # sends es"
| "sends (_ # es) = sends es"

definition is_open_event :: "string \<Rightarrow> event \<Rightarrow> bool" where
  "is_open_event sessionId e =
     (case e of
        ConnectionUpdateEvent sid sk u \<Rightarrow> sid = sessionId \<and> connection u = Some ''open''
      | _ \<Rightarrow> False)"

subsection \<open>Two concrete environments\<close>

text \<open>
  \<open>online sk\<close>: every external call succeeds, the library hands out the socket \<open>sk\<close> and the
  backend answers without a reply. \<open>offline\<close>: the backend refuses the connection and the
  version fetch fails.
\<close>

definition online :: "sock \<Rightarrow> world" where
  "online sk =
     \<lparr>env_LARAVEL_URL = None,
      axios_post = (\<lambda>_ _. Inr \<lparr>data = None\<rparr>),
      useMultiFileAuthState = (\<lambda>_. Inr ''creds''),
      fetchLatestBaileysVersion = Inr [2, 3000, 0],
      makeWASocket = (\<lambda>_ _. Inr sk),
      ev_on = (\<lambda>_ _. Inr ()),
      toDataURL = (\<lambda>q. Inr (''data:image/png;base64,'' @ q)),
      sendMessage = (\<lambda>_ _ _. Inr ()),
      logout = (\<lambda>_. Inr ()),
      fsp_rm = (\<lambda>_. Inr ())\<rparr>"

definition offline :: world where
  "offline =
     \<lparr>env_LARAVEL_URL = None,
      axios_post = (\<lambda>_ _. Inl (Error ''connect ECONNREFUSED'')),
      useMultiFileAuthState = (\<lambda>_. Inr ''creds''),
      fetchLatestBaileysVersion = Inl (Error ''getaddrinfo ENOTFOUND''),
      makeWASocket = (\<lambda>_ _. Inl (Error ''unreachable'')),
      ev_on = (\<lambda>_ _. Inr ()),
      toDataURL = (\<lambda>q. Inr (''data:image/png;base64,'' @ q)),
      sendMessage = (\<lambda>_ _ _. Inl (Error ''Connection Closed'')),
      logout = (\<lambda>_. Inl (Error ''Connection Closed'')),
      fsp_rm = (\<lambda>_. Inl (Error ''EACCES''))\<rparr>"

text \<open>The backend of \<open>online\<close> replaced by one that answers every post with the body \<open>b\<close>.\<close>

definition replying :: "reply_body \<Rightarrow> sock \<Rightarrow> world" where
  "replying b sk = (online sk)\<lparr>axios_post := (\<lambda>_ _. Inr \<lparr>data = Some b\<rparr>)\<rparr>"

subsection \<open>Reading a trace\<close>

text \<open>The effects of one \<open>sendWebhook\<close> call: the post, and the log line when it fails.\<close>

definition webhook_effects :: "world \<Rightarrow> string \<Rightarrow> payload \<Rightarrow> effect list" where
  "webhook_effects w endpoint dat =
     HttpPost (LARAVEL_URL w @ endpoint) dat (Some 5000)
       # (case axios_post w (LARAVEL_URL w @ endpoint) dat of
            Inl e \<Rightarrow> [LogError (''Webhook failed '' @ endpoint @ '': '' @ err_message e)]
          | Inr _ \<Rightarrow> [])"

fun is_connection_update :: "payload \<Rightarrow> bool" where
  "is_connection_update (ConnectionUpdate _ _ _) = True"
| "is_connection_update _ = False"

definition connection_updates :: "effect list \<Rightarrow> (string \<times> payload \<times> nat option) list" where
  "connection_updates tr = filter (\<lambda>x. is_connection_update (fst (snd x))) (posts tr)"

definition payloads :: "effect list \<Rightarrow> payload list" where
  "payloads tr = map (\<lambda>x. fst (snd x)) (posts tr)"

text \<open>The effects between a state and a later one.\<close>

definition new_effects :: "state \<Rightarrow> state \<Rightarrow> effect list" where
  "new_effects s s' = drop (length (trace s)) (trace s')"

subsection \<open>Concrete sockets, events and states\<close>

definition alice_sock :: sock where
  "alice_sock =
     \<lparr>sock_ref = 1, user = Some \<lparr>user_id = ''123@s.whatsapp.net'', user_name = Some ''Alice''\<rparr>\<rparr>"

definition alice_device_sock :: sock where
  "alice_device_sock =
     \<lparr>sock_ref = 2, user = Some \<lparr>user_id = ''123:7@s.whatsapp.net'', user_name = Some ''Alice''\<rparr>\<rparr>"

definition open_update :: update where
  "open_update = \<lparr>connection = Some ''open'', lastDisconnect = None, qr = None\<rparr>"

text \<open>The world of \<open>online\<close> with the version fetch of the client library failing.\<close>

definition version_down :: world where
  "version_down =
     (online alice_device_sock)\<lparr>fetchLatestBaileysVersion := Inl (Error ''getaddrinfo ENOTFOUND'')\<rparr>"

text \<open>A close after a lost connection (status 428) and a close after a remote logout (401).\<close>

definition drop_update :: update where
  "drop_update =
     \<lparr>connection = Some ''close'',
      lastDisconnect = Some \<lparr>error = Some \<lparr>err_output = Some \<lparr>statusCode = Some 428\<rparr>\<rparr>\<rparr>,
      qr = None\<rparr>"

definition logout_update :: update where
  "logout_update =
     \<lparr>connection = Some ''close'',
      lastDisconnect = Some \<lparr>error = Some \<lparr>err_output = Some \<lparr>statusCode = Some 401\<rparr>\<rparr>\<rparr>,
      qr = None\<rparr>"

definition hi_message :: wa_message where
  "hi_message =
     \<lparr>key = \<lparr>fromMe = False, remoteJid = ''555@s.whatsapp.net''\<rparr>,
      message = Some \<lparr>conversation = Some ''hi'', extendedTextMessage = None\<rparr>\<rparr>"

definition yo_message :: wa_message where
  "yo_message =
     \<lparr>key = \<lparr>fromMe = False, remoteJid = ''777@s.whatsapp.net''\<rparr>,
      message = Some \<lparr>conversation = None,
                      extendedTextMessage = Some \<lparr>ext_text = Some ''yo''\<rparr>\<rparr>\<rparr>"

definition s1_timer :: timer where
  "s1_timer = \<lparr>handle = 0, delay_ms = 30000, timer_sid = ''s1''\<rparr>"

text \<open>
  \<open>opened_state\<close>: session \<open>s1\<close> was created and its socket reported \<open>open\<close>, so its
  heartbeat timer runs. \<open>destroyed_state\<close>: \<open>s1\<close> was then destroyed.
\<close>

definition opened_state :: state where
  "opened_state =
     run [(online alice_sock, PostBotCreate (Some ''s1'')),
          (online alice_sock, ConnectionUpdateEvent ''s1'' alice_sock open_update)] init_state"

definition destroyed_state :: state where
  "destroyed_state = step (online alice_sock) (PostBotDestroy (Some ''s1'')) opened_state"

section \<open>Basic facts\<close>

lemmas handler_defs =
  bot_create_def bot_destroy_def createBotSession_def createBotSession_try_def
  on_connection_update_def qr_step_def open_branch_def close_branch_def on_messages_upsert_def
  forwardToLaravel_def heartbeat_tick_def sendWebhook_def startHeartbeat_def clearInterval_def
  setTimeout_def statusCode_of_def DisconnectReason_loggedOut_def messageText_def
  try_catch_def then_js_def call_def emit_def truthy_def js_or_def LARAVEL_URL_def
  map_has_def map_get_def map_delete_def Let_def

lemma posts_append: "posts (xs @ ys) = posts xs @ posts ys"
  by (induction xs rule: posts.induct) simp_all

lemma sends_append: "sends (xs @ ys) = sends xs @ sends ys"
  by (induction xs rule: sends.induct) simp_all

lemma split_nonempty: "split c s \<noteq> []"
  by (induction s) (auto split: list.splits)

lemma hd_split: "hd (split c s) = takeWhile (\<lambda>x. x \<noteq> c) s"
  by (induction s) (auto split: list.splits simp: split_nonempty)

lemma LARAVEL_URL_online: "LARAVEL_URL (online sk) = ''http://localhost:8000''"
  by (simp add: LARAVEL_URL_def online_def js_or_def truthy_def)

lemma LARAVEL_URL_offline: "LARAVEL_URL offline = ''http://localhost:8000''"
  by (simp add: LARAVEL_URL_def offline_def js_or_def truthy_def)

subsection \<open>The registry\<close>

lemma map_has_delete: "\<not> map_has k (map_delete k m)"
  by (induction m) (auto simp: map_has_def map_delete_def)

lemma map_set_filter:
  "distinct (map fst m) \<Longrightarrow> filter (\<lambda>p. fst p = k) (map_set k v m) = [(k, v)]"
proof (induction m)
  case Nil
  then show ?case by simp
next
  case (Cons p ps)
  have "filter (\<lambda>q. fst q = fst p) ps = []" if "fst p \<notin> fst ` set ps"
    using that by (induction ps) auto
  with Cons show ?case by auto
qed

lemma map_set_others: "map_delete k (map_set k v m) = map_delete k m"
  by (induction m) (auto simp: map_delete_def)

lemma map_set_distinct: "distinct (map fst m) \<Longrightarrow> distinct (map fst (map_set k v m))"
proof (induction m)
  case Nil
  then show ?case by simp
next
  case (Cons p ps)
  have "fst ` set (map_set k v ps) = insert k (fst ` set ps)"
    by (induction ps) auto
  with Cons show ?case by auto
qed

subsection \<open>What one webhook call does\<close>

lemma sendWebhook_eq:
  "sendWebhook w ep d s = (Inr (), s\<lparr>trace := trace s @ webhook_effects w ep d\<rparr>)"
  by (cases "axios_post w (LARAVEL_URL w @ ep) d")
     (simp_all add: sendWebhook_def try_catch_def then_js_def call_def emit_def webhook_effects_def)

lemma posts_webhook_effects:
  "posts (webhook_effects w ep d) = [(LARAVEL_URL w @ ep, d, Some 5000)]"
  by (cases "axios_post w (LARAVEL_URL w @ ep) d") (simp_all add: webhook_effects_def)

lemma connection_updates_append:
  "connection_updates (xs @ ys) = connection_updates xs @ connection_updates ys"
  by (simp add: connection_updates_def posts_append)

lemma connection_updates_webhook:
  "connection_updates (webhook_effects w ep d)
     = (if is_connection_update d then [(LARAVEL_URL w @ ep, d, Some 5000)] else [])"
  by (simp add: connection_updates_def posts_webhook_effects)

lemma connection_updates_simps [simp]:
  "connection_updates [] = []"
  "connection_updates (LogInfo m # tr) = connection_updates tr"
  "connection_updates (LogError m # tr) = connection_updates tr"
  "connection_updates (ToDataURL q # tr) = connection_updates tr"
  by (simp_all add: connection_updates_def)

lemma qr_step_frame:
  assumes "qr_step w sid u s = (r, s1)"
  shows "activeSessions s1 = activeSessions s \<and> intervals s1 = intervals s
         \<and> timeouts s1 = timeouts s \<and> next_handle s1 = next_handle s
         \<and> connection_updates (trace s1) = connection_updates (trace s)"
  using assms
  by (cases "toDataURL w (the (qr u))")
     (auto simp: qr_step_def then_js_def call_def emit_def sendWebhook_eq
         connection_updates_append connection_updates_webhook split: if_splits)

section \<open>The webhook notifier never throws\<close>

text \<open>
  C10. The webhook notifier never throws: for every endpoint, payload, backend behaviour
  and state it returns normally; it issues exactly one HTTP POST, of the payload, to the
  base URL followed by the endpoint path, with a timeout of 5000 ms; when the POST fails
  (whatever the failure) the only further effect is one error log line, no second POST is
  made, and nothing of the state but the trace changes.
\<close>

theorem sendWebhook_never_throws:
  "fst (sendWebhook w endpoint dat s) = Inr ()
   \<and> posts (trace (snd (sendWebhook w endpoint dat s)))
       = posts (trace s) @ [(LARAVEL_URL w @ endpoint, dat, Some 5000)]
   \<and> trace (snd (sendWebhook w endpoint dat s))
       = trace s @ HttpPost (LARAVEL_URL w @ endpoint) dat (Some 5000)
           # (case axios_post w (LARAVEL_URL w @ endpoint) dat of
                Inl e \<Rightarrow> [LogError (''Webhook failed '' @ endpoint @ '': '' @ err_message e)]
              | Inr _ \<Rightarrow> [])
   \<and> (snd (sendWebhook w endpoint dat s))\<lparr>trace := trace s\<rparr> = s"
  by (cases "axios_post w (LARAVEL_URL w @ endpoint) dat")
     (simp_all add: sendWebhook_def try_catch_def then_js_def call_def emit_def posts_append)

theorem sendWebhook_never_throws_witness:
  "fst (sendWebhook offline ''/api/webhook/wa/heartbeat'' (Heartbeat ''s1'') init_state) = Inr ()
   \<and> trace (snd (sendWebhook offline ''/api/webhook/wa/heartbeat'' (Heartbeat ''s1'') init_state))
       = [HttpPost ''http://localhost:8000/api/webhook/wa/heartbeat'' (Heartbeat ''s1'') (Some 5000),
          LogError ''Webhook failed /api/webhook/wa/heartbeat: connect ECONNREFUSED'']"
proof -
  have h: "axios_post offline ''http://localhost:8000/api/webhook/wa/heartbeat'' (Heartbeat ''s1'')
             = Inl (Error ''connect ECONNREFUSED'')"
    by (simp add: offline_def)
  show ?thesis
    using sendWebhook_never_throws [of offline "''/api/webhook/wa/heartbeat''" "Heartbeat ''s1''" init_state]
    by (simp add: LARAVEL_URL_offline h init_state_def)
qed

section \<open>Connection-state events\<close>

text \<open>
  C5. On a close event (an update whose \<open>connection\<close> is \<open>"close"\<close>, the pairing-code block
  at the head of the handler having completed) the handler returns normally and emits
  exactly one connection-update webhook, \<open>{sessionId, status: "disconnected", phoneInfo:
  null}\<close>. When the status code of the disconnect cause is that of a remote logout, no
  timeout is scheduled and the session is deleted from the registry. For every other
  cause, also a missing one, the registry is left as it is and one timeout of 3000 ms is
  scheduled whose callback, when its handle is fresh, is \<open>createBotSession(sessionId)\<close>.
  This holds in every state: nothing counts the attempts.
\<close>

theorem close_event_webhook_and_reconnect:
  assumes "connection u = Some ''close''"
    and "fst (qr_step w sessionId u s) = Inr ()"
  shows "fst (on_connection_update w sessionId sk u s) = Inr ()
    \<and> connection_updates (trace (snd (on_connection_update w sessionId sk u s)))
        = connection_updates (trace s)
          @ [(LARAVEL_URL w @ ''/api/webhook/wa/connection-update'',
              ConnectionUpdate sessionId ''disconnected'' None, Some 5000)]
    \<and> (if statusCode_of (lastDisconnect u) = Some DisconnectReason_loggedOut
        then timeouts (snd (on_connection_update w sessionId sk u s)) = timeouts s
           \<and> activeSessions (snd (on_connection_update w sessionId sk u s))
               = map_delete sessionId (activeSessions s)
           \<and> \<not> map_has sessionId (activeSessions (snd (on_connection_update w sessionId sk u s)))
        else timeouts (snd (on_connection_update w sessionId sk u s))
               = timeouts s @ [\<lparr>handle = next_handle s, delay_ms = 3000, timer_sid = sessionId\<rparr>]
           \<and> activeSessions (snd (on_connection_update w sessionId sk u s)) = activeSessions s
           \<and> (list_all (\<lambda>t. handle t \<noteq> next_handle s) (timeouts s) \<longrightarrow>
                step w2 (TimeoutFires (next_handle s)) (snd (on_connection_update w sessionId sk u s))
                  = snd (createBotSession w2 sessionId
                           ((snd (on_connection_update w sessionId sk u s))\<lparr>timeouts := timeouts s\<rparr>))))"
proof -
  obtain s1 where q: "qr_step w sessionId u s = (Inr (), s1)"
    using assms(2) by (cases "qr_step w sessionId u s") auto
  note fr = qr_step_frame [OF q]
  have eq: "on_connection_update w sessionId sk u s = close_branch w sessionId u s1"
    using assms(1) q by (simp add: on_connection_update_def then_js_def)
  have fresh: "find (\<lambda>t. handle t = n) (ts @ [\<lparr>handle = n, delay_ms = 3000, timer_sid = sessionId\<rparr>])
                 = Some \<lparr>handle = n, delay_ms = 3000, timer_sid = sessionId\<rparr>
               \<and> filter (\<lambda>t. handle t \<noteq> n) ts = ts"
    if "list_all (\<lambda>t. handle t \<noteq> n) ts" for n and ts :: "timer list"
    using that by (induction ts) auto
  show ?thesis
    unfolding eq
    by (simp add: close_branch_def Let_def sendWebhook_eq then_js_def setTimeout_def emit_def fr
        connection_updates_append connection_updates_webhook map_has_delete fresh)
qed

theorem close_event_webhook_and_reconnect_witness:
  "connection drop_update = Some ''close''
   \<and> fst (qr_step (online alice_sock) ''s1'' drop_update opened_state) = Inr ()
   \<and> fst (on_connection_update (online alice_sock) ''s1'' alice_sock drop_update opened_state) = Inr ()
   \<and> timeouts (snd (on_connection_update (online alice_sock) ''s1'' alice_sock drop_update opened_state))
       = [\<lparr>handle = 1, delay_ms = 3000, timer_sid = ''s1''\<rparr>]
   \<and> activeSessions (snd (on_connection_update (online alice_sock) ''s1'' alice_sock drop_update opened_state))
       = [(''s1'', alice_sock)]
   \<and> list_all (\<lambda>t. handle t \<noteq> next_handle opened_state) (timeouts opened_state)
   \<and> step (online alice_device_sock) (TimeoutFires 1)
         (snd (on_connection_update (online alice_sock) ''s1'' alice_sock drop_update opened_state))
       = snd (createBotSession (online alice_device_sock) ''s1''
                (snd (on_connection_update (online alice_sock) ''s1'' alice_sock drop_update
                        opened_state)\<lparr>timeouts := []\<rparr>))
   \<and> connection logout_update = Some ''close''
   \<and> timeouts (snd (on_connection_update (online alice_sock) ''s1'' alice_sock logout_update opened_state))
       = []
   \<and> activeSessions (snd (on_connection_update (online alice_sock) ''s1'' alice_sock logout_update opened_state))
       = []"
proof -
  have st: "timeouts opened_state = [] \<and> next_handle opened_state = 1
            \<and> activeSessions opened_state = [(''s1'', alice_sock)]"
    by (simp add: opened_state_def init_state_def online_def alice_sock_def open_update_def
        handler_defs)
  have h1: "connection drop_update = Some ''close''"
    by (simp add: drop_update_def)
  have h2: "fst (qr_step (online alice_sock) ''s1'' drop_update opened_state) = Inr ()"
    by (simp add: qr_step_def drop_update_def truthy_def)
  have h3: "statusCode_of (lastDisconnect drop_update) \<noteq> Some DisconnectReason_loggedOut"
    by (simp add: statusCode_of_def drop_update_def DisconnectReason_loggedOut_def)
  have k1: "connection logout_update = Some ''close''"
    by (simp add: logout_update_def)
  have k2: "fst (qr_step (online alice_sock) ''s1'' logout_update opened_state) = Inr ()"
    by (simp add: qr_step_def logout_update_def truthy_def)
  have k3: "statusCode_of (lastDisconnect logout_update) = Some DisconnectReason_loggedOut"
    by (simp add: statusCode_of_def logout_update_def DisconnectReason_loggedOut_def)
  show ?thesis
    using close_event_webhook_and_reconnect [OF h1 h2, of alice_sock "online alice_device_sock"]
      close_event_webhook_and_reconnect [OF k1 k2, of alice_sock] h1 h2 h3 k1 k3 st
    by (simp add: map_delete_def)
qed

text \<open>
  C1, as the code has it. On an open event (an update whose \<open>connection\<close> is \<open>"open"\<close>, the
  pairing-code block having completed) of a socket whose \<open>user\<close> is set, the handler
  returns normally and emits exactly one connection-update webhook, \<open>{sessionId, status:
  "connected", phoneInfo}\<close>, where \<open>phoneInfo\<close> holds the account id as \<open>jid\<close>, the display
  name, and as \<open>phone\<close> the part of the account id before its first colon, which is the
  whole id when it has no colon.
\<close>

theorem open_event_phone_info:
  assumes "connection u = Some ''open''"
    and "fst (qr_step w sessionId u s) = Inr ()"
    and "user sk = Some c"
  shows "fst (on_connection_update w sessionId sk u s) = Inr ()
    \<and> connection_updates (trace (snd (on_connection_update w sessionId sk u s)))
        = connection_updates (trace s)
          @ [(LARAVEL_URL w @ ''/api/webhook/wa/connection-update'',
              ConnectionUpdate sessionId ''connected''
                (Some \<lparr>jid = user_id c, name = user_name c,
                       phone = takeWhile (\<lambda>x. x \<noteq> CHR '':'') (user_id c)\<rparr>),
              Some 5000)]"
proof -
  obtain s1 where q: "qr_step w sessionId u s = (Inr (), s1)"
    using assms(2) by (cases "qr_step w sessionId u s") auto
  note fr = qr_step_frame [OF q]
  have eq: "on_connection_update w sessionId sk u s = open_branch w sessionId sk s1"
    using assms(1) q by (simp add: on_connection_update_def then_js_def)
  show ?thesis
    unfolding eq using assms(3)
    by (simp add: open_branch_def Let_def sendWebhook_eq then_js_def startHeartbeat_def emit_def fr
        connection_updates_append connection_updates_webhook hd_split)
qed

theorem open_event_phone_info_witness:
  "connection open_update = Some ''open''
   \<and> fst (qr_step (online alice_device_sock) ''s1'' open_update init_state) = Inr ()
   \<and> user alice_device_sock = Some \<lparr>user_id = ''123:7@s.whatsapp.net'', user_name = Some ''Alice''\<rparr>
   \<and> connection_updates
        (trace (snd (on_connection_update (online alice_device_sock) ''s1'' alice_device_sock
                       open_update init_state)))
       = [(''http://localhost:8000/api/webhook/wa/connection-update'',
           ConnectionUpdate ''s1'' ''connected''
             (Some \<lparr>jid = ''123:7@s.whatsapp.net'', name = Some ''Alice'', phone = ''123''\<rparr>),
           Some 5000)]"
proof -
  have h1: "connection open_update = Some ''open''"
    by (simp add: open_update_def)
  have h2: "fst (qr_step (online alice_device_sock) ''s1'' open_update init_state) = Inr ()"
    by (simp add: qr_step_def open_update_def truthy_def)
  have h3: "user alice_device_sock
              = Some \<lparr>user_id = ''123:7@s.whatsapp.net'', user_name = Some ''Alice''\<rparr>"
    by (simp add: alice_device_sock_def)
  show ?thesis
    using open_event_phone_info [OF h1 h2 h3] h1 h2 h3
    by (simp add: init_state_def LARAVEL_URL_online)
qed

text \<open>
  The scenario of C1 itself: session \<open>s1\<close> is created and its socket, whose account id is
  \<open>123@s.whatsapp.net\<close> with name \<open>Alice\<close>, reports \<open>open\<close>. The only webhook sent carries
  the whole account id as \<open>phone\<close>, not \<open>123\<close>.
\<close>

theorem open_event_phone_counterexample:
  "payloads (trace (run [(online alice_sock, PostBotCreate (Some ''s1'')),
                         (online alice_sock, ConnectionUpdateEvent ''s1'' alice_sock open_update)]
                     init_state))
     = [ConnectionUpdate ''s1'' ''connected''
          (Some \<lparr>jid = ''123@s.whatsapp.net'', name = Some ''Alice'', phone = ''123@s.whatsapp.net''\<rparr>)]
   \<and> payloads (trace (run [(online alice_sock, PostBotCreate (Some ''s1'')),
                         (online alice_sock, ConnectionUpdateEvent ''s1'' alice_sock open_update)]
                     init_state))
     \<noteq> [ConnectionUpdate ''s1'' ''connected''
          (Some \<lparr>jid = ''123@s.whatsapp.net'', name = Some ''Alice'', phone = ''123''\<rparr>)]"
  by (simp add: payloads_def init_state_def online_def alice_sock_def open_update_def handler_defs)

section \<open>Creating a session\<close>

lemma createBotSession_try_cases:
  "(\<exists>e tr. createBotSession_try w sid s = (Inl e, s\<lparr>trace := trace s @ tr\<rparr>))
   \<or> (\<exists>a v sk. useMultiFileAuthState w (''./sessions/'' @ sid) = Inr a
        \<and> fetchLatestBaileysVersion w = Inr v \<and> makeWASocket w v a = Inr sk
        \<and> createBotSession_try w sid s
            = (Inr sk, s\<lparr>trace := trace s @ [UseMultiFileAuthState (''./sessions/'' @ sid),
                  FetchLatestBaileysVersion, MakeWASocket, EvOn sk ''connection.update'',
                  EvOn sk ''creds.update'', EvOn sk ''messages.upsert''],
                activeSessions := map_set sid sk (activeSessions s)\<rparr>))"
  unfolding createBotSession_try_def then_js_def call_def emit_def
  by (auto split: sum.splits)

lemma createBotSession_try_fst:
  "fst (createBotSession_try w sid s) = fst (createBotSession_try w sid s0)"
  unfolding createBotSession_try_def then_js_def call_def emit_def
  by (auto split: sum.splits)

lemma createBotSession_try_frame:
  assumes "createBotSession_try w sid s = (Inl e, s1)"
  shows "activeSessions s1 = activeSessions s \<and> intervals s1 = intervals s
       \<and> timeouts s1 = timeouts s \<and> next_handle s1 = next_handle s
       \<and> posts (trace s1) = posts (trace s)"
  using assms unfolding createBotSession_try_def then_js_def call_def emit_def
  by (auto split: sum.splits simp: posts_append)

lemma createBotSession_fail:
  assumes "fst (createBotSession_try w sid s) = Inl e"
  shows "fst (createBotSession w sid s) = Inr None
       \<and> activeSessions (snd (createBotSession w sid s)) = activeSessions s
       \<and> intervals (snd (createBotSession w sid s)) = intervals s
       \<and> posts (trace (snd (createBotSession w sid s)))
           = posts (trace s) @ [(LARAVEL_URL w @ ''/api/webhook/wa/connection-update'',
                                 ConnectionUpdate sid ''disconnected'' None, Some 5000)]"
proof -
  obtain s1 where t: "createBotSession_try w sid s = (Inl e, s1)"
    using assms by (cases "createBotSession_try w sid s") auto
  note fr = createBotSession_try_frame [OF t]
  show ?thesis
    by (simp add: createBotSession_def t try_catch_def then_js_def sendWebhook_eq emit_def fr
        posts_append posts_webhook_effects)
qed

lemma createBotSession_ok:
  assumes "createBotSession_try w sid s = (Inr sk, s1)"
  shows "createBotSession w sid s = (Inr (Some sk), s1)"
  by (simp add: createBotSession_def assms try_catch_def then_js_def)

subsection \<open>The suspension points and the whole run agree\<close>

lemma drive_Returned [simp]: "drive n w (Returned r, s) = (Returned r, s)"
  by (induction n) simp_all















text \<open>
  What holds when a step of the \<open>try\<close> block fails (credential load, version fetch, socket
  construction or a subscription): the function returns normally, without a socket; it
  posts exactly one webhook, the connection-update \<open>{sessionId, status: "disconnected",
  phoneInfo: null}\<close>; and it does not touch the registry. Through \<open>POST /bot/create\<close>, which
  refuses a registered id, the endpoint answers 200 and the session is absent afterwards.
\<close>

lemma bot_create_setup_failure:
  assumes "fst (createBotSession_try w sessionId s) = Inl e"
  shows "fst (createBotSession w sessionId s) = Inr None
    \<and> activeSessions (snd (createBotSession w sessionId s)) = activeSessions s
    \<and> posts (trace (snd (createBotSession w sessionId s)))
        = posts (trace s) @ [(LARAVEL_URL w @ ''/api/webhook/wa/connection-update'',
                              ConnectionUpdate sessionId ''disconnected'' None, Some 5000)]
    \<and> (sessionId \<noteq> [] \<and> \<not> map_has sessionId (activeSessions s) \<longrightarrow>
         fst (bot_create w (Some sessionId) s)
           = Inr \<lparr>status = 200, body = MessageBody ''Bot session creation initiated'' sessionId\<rparr>
       \<and> posts (trace (snd (bot_create w (Some sessionId) s)))
           = posts (trace s) @ [(LARAVEL_URL w @ ''/api/webhook/wa/connection-update'',
                                 ConnectionUpdate sessionId ''disconnected'' None, Some 5000)]
       \<and> \<not> map_has sessionId (activeSessions (snd (bot_create w (Some sessionId) s))))"
proof -
  let ?s0 = "emit (LogInfo (''Creating bot session: '' @ sessionId)) s"
  have f0: "fst (createBotSession_try w sessionId ?s0) = Inl e"
    using assms createBotSession_try_fst [of w sessionId ?s0 s] by simp
  note a = createBotSession_fail [OF assms]
  note b = createBotSession_fail [OF f0]
  have c: "sessionId \<noteq> [] \<Longrightarrow> \<not> map_has sessionId (activeSessions s) \<Longrightarrow>
        bot_create w (Some sessionId) s
          = (Inr \<lparr>status = 200, body = MessageBody ''Bot session creation initiated'' sessionId\<rparr>,
             snd (createBotSession w sessionId ?s0))"
    using b by (cases "createBotSession w sessionId ?s0")
               (simp add: bot_create_def truthy_def then_js_def)
  show ?thesis using a b c by (simp add: emit_def posts_append)
qed

text \<open>
  C8 against the code. The \<open>catch\<close> block of \<open>createBotSession\<close> never deletes from the
  registry, and a close for a cause other than logout keeps the entry. Session \<open>s1\<close> is
  created and opens; the connection drops; the reconnect scheduled by the close handler
  fires while the version fetch fails. \<open>createBotSession\<close> returns normally and the
  disconnected webhook is posted, but \<open>s1\<close> is not left absent: the registry still maps it
  to the closed socket, no further reconnect is pending, and \<open>POST /bot/create\<close> for \<open>s1\<close> is
  refused as already existing.
\<close>

theorem failed_reconnect_keeps_stale_entry:
  "activeSessions
     (run [(online alice_sock, PostBotCreate (Some ''s1'')),
           (online alice_sock, ConnectionUpdateEvent ''s1'' alice_sock open_update),
           (online alice_sock, ConnectionUpdateEvent ''s1'' alice_sock drop_update),
           (version_down, TimeoutFires 1)] init_state)
     = [(''s1'', alice_sock)]
   \<and> timeouts
       (run [(online alice_sock, PostBotCreate (Some ''s1'')),
             (online alice_sock, ConnectionUpdateEvent ''s1'' alice_sock open_update),
             (online alice_sock, ConnectionUpdateEvent ''s1'' alice_sock drop_update),
             (version_down, TimeoutFires 1)] init_state)
     = []
   \<and> payloads
       (trace (run [(online alice_sock, PostBotCreate (Some ''s1'')),
                    (online alice_sock, ConnectionUpdateEvent ''s1'' alice_sock open_update),
                    (online alice_sock, ConnectionUpdateEvent ''s1'' alice_sock drop_update),
                    (version_down, TimeoutFires 1)] init_state))
     = [ConnectionUpdate ''s1'' ''connected''
          (Some \<lparr>jid = ''123@s.whatsapp.net'', name = Some ''Alice'', phone = ''123@s.whatsapp.net''\<rparr>),
        ConnectionUpdate ''s1'' ''disconnected'' None,
        ConnectionUpdate ''s1'' ''disconnected'' None]
   \<and> fst (createBotSession version_down ''s1''
           (run [(online alice_sock, PostBotCreate (Some ''s1'')),
                 (online alice_sock, ConnectionUpdateEvent ''s1'' alice_sock open_update),
                 (online alice_sock, ConnectionUpdateEvent ''s1'' alice_sock drop_update)] init_state))
     = Inr None
   \<and> map_has ''s1''
       (activeSessions
          (run [(online alice_sock, PostBotCreate (Some ''s1'')),
                (online alice_sock, ConnectionUpdateEvent ''s1'' alice_sock open_update),
                (online alice_sock, ConnectionUpdateEvent ''s1'' alice_sock drop_update),
                (version_down, TimeoutFires 1)] init_state))
   \<and> fst (bot_create (online alice_device_sock) (Some ''s1'')
           (run [(online alice_sock, PostBotCreate (Some ''s1'')),
                 (online alice_sock, ConnectionUpdateEvent ''s1'' alice_sock open_update),
                 (online alice_sock, ConnectionUpdateEvent ''s1'' alice_sock drop_update),
                 (version_down, TimeoutFires 1)] init_state))
     = Inr \<lparr>status = 400, body = ErrorBody ''Session already exists''\<rparr>"
  by (simp add: version_down_def init_state_def online_def alice_sock_def alice_device_sock_def
      open_update_def drop_update_def payloads_def handler_defs)

section \<open>Destroying a session\<close>

text \<open>
  C7. For every non-empty \<open>sessionId\<close>, every state and every behaviour of the outside,
  \<open>POST /bot/destroy\<close> answers 200 with the message that the session was destroyed. It
  calls the recursive, forced removal of \<open>./sessions/sessionId\<close> whether or not the id is
  registered. When an entry exists its socket is asked to log out, and whether that
  succeeds or fails the entry is gone afterwards. A second destroy of the same id
  answers 200 again.
\<close>

theorem destroy_always_succeeds:
  assumes "sessionId \<noteq> []"
  shows "fst (bot_destroy w (Some sessionId) s)
           = Inr \<lparr>status = 200, body = MessageBody ''Bot session destroyed'' sessionId\<rparr>
    \<and> FsRm (''./sessions/'' @ sessionId) True True
         \<in> set (new_effects s (snd (bot_destroy w (Some sessionId) s)))
    \<and> (case map_get sessionId (activeSessions s) of
          None \<Rightarrow> activeSessions (snd (bot_destroy w (Some sessionId) s)) = activeSessions s
        | Some sk \<Rightarrow> Logout sk \<in> set (new_effects s (snd (bot_destroy w (Some sessionId) s)))
            \<and> activeSessions (snd (bot_destroy w (Some sessionId) s))
                = map_delete sessionId (activeSessions s))
    \<and> \<not> map_has sessionId (activeSessions (snd (bot_destroy w (Some sessionId) s)))
    \<and> fst (bot_destroy w2 (Some sessionId) (snd (bot_destroy w (Some sessionId) s)))
           = Inr \<lparr>status = 200, body = MessageBody ''Bot session destroyed'' sessionId\<rparr>"
proof -
  have ok: "fst (bot_destroy w' (Some sessionId) s')
           = Inr \<lparr>status = 200, body = MessageBody ''Bot session destroyed'' sessionId\<rparr>" for w' s'
    using assms
    by (simp add: bot_destroy_def truthy_def then_js_def try_catch_def call_def
        split: option.splits sum.splits prod.splits)
  have rm: "FsRm (''./sessions/'' @ sessionId) True True
         \<in> set (new_effects s (snd (bot_destroy w (Some sessionId) s)))"
    using assms
    by (auto simp: bot_destroy_def truthy_def then_js_def try_catch_def call_def emit_def
        new_effects_def split: option.splits sum.splits)
  have reg: "(case map_get sessionId (activeSessions s) of
          None \<Rightarrow> activeSessions (snd (bot_destroy w (Some sessionId) s)) = activeSessions s
        | Some sk \<Rightarrow> Logout sk \<in> set (new_effects s (snd (bot_destroy w (Some sessionId) s)))
            \<and> activeSessions (snd (bot_destroy w (Some sessionId) s))
                = map_delete sessionId (activeSessions s))"
    using assms
    by (auto simp: bot_destroy_def truthy_def then_js_def try_catch_def call_def emit_def
        new_effects_def split: option.splits sum.splits)
  have gone: "\<not> map_has sessionId (activeSessions (snd (bot_destroy w (Some sessionId) s)))"
    using reg map_has_delete [of sessionId "activeSessions s"]
    by (auto simp: map_get_def map_has_def split: option.splits)
  show ?thesis using ok rm reg gone by simp
qed

theorem destroy_always_succeeds_witness:
  "''ghost'' \<noteq> []
   \<and> fst (bot_destroy offline (Some ''ghost'') init_state)
       = Inr \<lparr>status = 200, body = MessageBody ''Bot session destroyed'' ''ghost''\<rparr>
   \<and> FsRm ''./sessions/ghost'' True True
       \<in> set (new_effects init_state (snd (bot_destroy offline (Some ''ghost'') init_state)))
   \<and> fst (bot_destroy offline (Some ''ghost'') (snd (bot_destroy offline (Some ''ghost'') init_state)))
       = Inr \<lparr>status = 200, body = MessageBody ''Bot session destroyed'' ''ghost''\<rparr>
   \<and> ''s1'' \<noteq> []
   \<and> logout offline alice_sock = Inl (Error ''Connection Closed'')
   \<and> activeSessions opened_state = [(''s1'', alice_sock)]
   \<and> Logout alice_sock
       \<in> set (new_effects opened_state (snd (bot_destroy offline (Some ''s1'') opened_state)))
   \<and> activeSessions (snd (bot_destroy offline (Some ''s1'') opened_state)) = []"
proof -
  have h: "''ghost'' \<noteq> []" by simp
  have k: "''s1'' \<noteq> []" by simp
  have st: "activeSessions opened_state = [(''s1'', alice_sock)]"
    by (simp add: opened_state_def init_state_def online_def alice_sock_def open_update_def
        handler_defs)
  have lo: "logout offline alice_sock = Inl (Error ''Connection Closed'')"
    by (simp add: offline_def)
  show ?thesis
    using destroy_always_succeeds [OF h, of offline init_state offline]
      destroy_always_succeeds [OF k, of offline opened_state offline] st lo
    by (simp add: map_get_def map_delete_def)
qed

section \<open>Inbound messages\<close>

text \<open>
  C9, as the code has it. \<open>forwardToLaravel\<close> never throws and posts the message once to
  the incoming-message endpoint. It calls \<open>sock.sendMessage\<close> exactly once, to the sender
  and with the reply text, when the post succeeds and the response carries a non-empty
  \<open>reply\<close>; when the post fails, when the response has no body or no \<open>reply\<close>, and also when
  \<open>reply\<close> is the empty string, it sends nothing.
\<close>

theorem forward_reply_sent_once:
  "fst (forwardToLaravel w sk msg sessionId s) = Inr ()
   \<and> posts (trace (snd (forwardToLaravel w sk msg sessionId s)))
       = posts (trace s) @ [(LARAVEL_URL w @ ''/api/webhook/wa/incoming-message'',
                             IncomingMessage sessionId (remoteJid (key msg)) (messageText msg), None)]
   \<and> sends (trace (snd (forwardToLaravel w sk msg sessionId s)))
       = sends (trace s)
         @ (case axios_post w (LARAVEL_URL w @ ''/api/webhook/wa/incoming-message'')
                  (IncomingMessage sessionId (remoteJid (key msg)) (messageText msg)) of
              Inl e \<Rightarrow> []
            | Inr resp \<Rightarrow>
                (case Option.bind (data resp) reply of
                   None \<Rightarrow> []
                 | Some r \<Rightarrow> if r = [] then [] else [(sk, remoteJid (key msg), r)]))"
proof (cases "axios_post w (LARAVEL_URL w @ ''/api/webhook/wa/incoming-message'')
                  (IncomingMessage sessionId (remoteJid (key msg)) (messageText msg))")
  case (Inl e)
  then show ?thesis
    by (simp add: forwardToLaravel_def Let_def try_catch_def then_js_def call_def emit_def
        posts_append sends_append)
next
  case (Inr resp)
  show ?thesis
  proof (cases "Option.bind (data resp) reply")
    case None
    with Inr show ?thesis
      by (simp add: forwardToLaravel_def Let_def try_catch_def then_js_def call_def emit_def
          posts_append sends_append truthy_def)
  next
    case (Some r)
    with Inr show ?thesis
      by (cases "sendMessage w sk (remoteJid (key msg)) r")
         (simp_all add: forwardToLaravel_def Let_def try_catch_def then_js_def call_def emit_def
          posts_append sends_append truthy_def)
  qed
qed

theorem forward_reply_sent_once_witness:
  "messageText hi_message = ''hi''
   \<and> sends (trace (snd (forwardToLaravel (replying \<lparr>reply = Some ''hello''\<rparr> alice_sock) alice_sock
                          hi_message ''s1'' init_state)))
       = [(alice_sock, ''555@s.whatsapp.net'', ''hello'')]"
proof -
  have h: "messageText hi_message = ''hi''"
    by (simp add: messageText_def hi_message_def js_or_def truthy_def)
  show ?thesis
    using forward_reply_sent_once [of "replying \<lparr>reply = Some ''hello''\<rparr> alice_sock" alice_sock
        hi_message "''s1''" init_state] h
    by (simp add: replying_def online_def hi_message_def init_state_def)
qed

text \<open>
  C9 as stated fails for a response whose \<open>reply\<close> field is the empty string: the message
  is forwarded, the response contains a \<open>reply\<close> field, and nothing is sent back.
\<close>

theorem forward_empty_reply_counterexample:
  "posts (trace (snd (forwardToLaravel (replying \<lparr>reply = Some []\<rparr> alice_sock) alice_sock
                        hi_message ''s1'' init_state)))
     = [(''http://localhost:8000/api/webhook/wa/incoming-message'',
         IncomingMessage ''s1'' ''555@s.whatsapp.net'' ''hi'', None)]
   \<and> axios_post (replying \<lparr>reply = Some []\<rparr> alice_sock)
        ''http://localhost:8000/api/webhook/wa/incoming-message''
        (IncomingMessage ''s1'' ''555@s.whatsapp.net'' ''hi'')
       = Inr \<lparr>data = Some \<lparr>reply = Some []\<rparr>\<rparr>
   \<and> sends (trace (snd (forwardToLaravel (replying \<lparr>reply = Some []\<rparr> alice_sock) alice_sock
                          hi_message ''s1'' init_state)))
     = []"
  by (simp add: replying_def online_def hi_message_def init_state_def handler_defs)

text \<open>The handler looks at the head of the batch and at nothing else.\<close>

lemma on_messages_upsert_head:
  "on_messages_upsert w sid sk \<lparr>messages = msg # rest\<rparr> s
     = on_messages_upsert w sid sk \<lparr>messages = [msg]\<rparr> s"
  by (simp add: on_messages_upsert_def)

lemma on_messages_upsert_single:
  assumes "\<not> fromMe (key msg)" and "message msg \<noteq> None"
  shows "payloads (trace (snd (on_messages_upsert w sid sk \<lparr>messages = [msg]\<rparr> s)))
           = payloads (trace s) @ [IncomingMessage sid (remoteJid (key msg)) (messageText msg)]"
proof -
  have "posts (trace (snd (forwardToLaravel w sk msg sid s)))
          = posts (trace s) @ [(LARAVEL_URL w @ ''/api/webhook/wa/incoming-message'',
                                IncomingMessage sid (remoteJid (key msg)) (messageText msg), None)]"
    by (cases "axios_post w (LARAVEL_URL w @ ''/api/webhook/wa/incoming-message'')
                  (IncomingMessage sid (remoteJid (key msg)) (messageText msg))")
       (simp_all add: forwardToLaravel_def Let_def try_catch_def then_js_def call_def emit_def
          posts_append split: sum.splits)
  with assms show ?thesis
    by (simp add: on_messages_upsert_def payloads_def)
qed

text \<open>
  C3 against the code. A batch of two inbound messages, neither from the session's own
  account and both with content, arrives on \<open>messages.upsert\<close>. The handler reads
  \<open>m.messages[0]\<close> only: one incoming-message post is made, for the first message; the
  second message, which alone would be forwarded, is dropped, and the handler does on the
  batch exactly what it does on the first message alone.
\<close>

theorem upsert_forwards_first_message_only:
  "payloads (trace (snd (on_messages_upsert (online alice_sock) ''s1'' alice_sock
                           \<lparr>messages = [hi_message, yo_message]\<rparr> init_state)))
     = [IncomingMessage ''s1'' ''555@s.whatsapp.net'' ''hi'']
   \<and> payloads (trace (snd (on_messages_upsert (online alice_sock) ''s1'' alice_sock
                           \<lparr>messages = [yo_message]\<rparr> init_state)))
     = [IncomingMessage ''s1'' ''777@s.whatsapp.net'' ''yo'']
   \<and> on_messages_upsert (online alice_sock) ''s1'' alice_sock
        \<lparr>messages = [hi_message, yo_message]\<rparr> init_state
     = on_messages_upsert (online alice_sock) ''s1'' alice_sock
        \<lparr>messages = [hi_message]\<rparr> init_state"
proof -
  have hi: "\<not> fromMe (key hi_message)" "message hi_message \<noteq> None"
    "remoteJid (key hi_message) = ''555@s.whatsapp.net''" "messageText hi_message = ''hi''"
    by (simp_all add: hi_message_def messageText_def js_or_def truthy_def)
  have yo: "\<not> fromMe (key yo_message)" "message yo_message \<noteq> None"
    "remoteJid (key yo_message) = ''777@s.whatsapp.net''" "messageText yo_message = ''yo''"
    by (simp_all add: yo_message_def messageText_def js_or_def truthy_def)
  have batch: "on_messages_upsert (online alice_sock) ''s1'' alice_sock
        \<lparr>messages = [hi_message, yo_message]\<rparr> init_state
     = on_messages_upsert (online alice_sock) ''s1'' alice_sock
        \<lparr>messages = [hi_message]\<rparr> init_state"
    by (rule on_messages_upsert_head)
  have first: "payloads (trace (snd (on_messages_upsert (online alice_sock) ''s1'' alice_sock
                           \<lparr>messages = [hi_message]\<rparr> init_state)))
     = [IncomingMessage ''s1'' ''555@s.whatsapp.net'' ''hi'']"
    using on_messages_upsert_single [OF hi(1,2), of "online alice_sock" "''s1''" alice_sock init_state]
    by (simp add: hi payloads_def init_state_def)
  have second: "payloads (trace (snd (on_messages_upsert (online alice_sock) ''s1'' alice_sock
                           \<lparr>messages = [yo_message]\<rparr> init_state)))
     = [IncomingMessage ''s1'' ''777@s.whatsapp.net'' ''yo'']"
    using on_messages_upsert_single [OF yo(1,2), of "online alice_sock" "''s1''" alice_sock init_state]
    by (simp add: yo payloads_def init_state_def)
  show ?thesis
    using batch first second by simp
qed

section \<open>The heartbeat timers\<close>

lemma heartbeats_append: "heartbeats sid (xs @ ys) = heartbeats sid xs @ heartbeats sid ys"
  by (simp add: heartbeats_def posts_append)

lemma heartbeats_webhook:
  "heartbeats sid (webhook_effects w ep d)
     = (if d = Heartbeat sid then [(LARAVEL_URL w @ ep, d, Some 5000)] else [])"
  by (simp add: heartbeats_def posts_webhook_effects)

lemma heartbeats_simps [simp]:
  "heartbeats sid [] = []"
  "heartbeats sid (LogInfo m # tr) = heartbeats sid tr"
  "heartbeats sid (LogError m # tr) = heartbeats sid tr"
  "heartbeats sid (ToDataURL q # tr) = heartbeats sid tr"
  "heartbeats sid (SendMessage sk a b # tr) = heartbeats sid tr"
  "heartbeats sid (Logout sk # tr) = heartbeats sid tr"
  "heartbeats sid (FsRm pth r f # tr) = heartbeats sid tr"
  "heartbeats sid (UseMultiFileAuthState pth # tr) = heartbeats sid tr"
  "heartbeats sid (FetchLatestBaileysVersion # tr) = heartbeats sid tr"
  "heartbeats sid (MakeWASocket # tr) = heartbeats sid tr"
  "heartbeats sid (EvOn sk ev # tr) = heartbeats sid tr"
  "heartbeats sid (HttpPost u p t # tr)
     = (if p = Heartbeat sid then (u, p, t) # heartbeats sid tr else heartbeats sid tr)"
  by (simp_all add: heartbeats_def)

text \<open>Only a timer tick sends a heartbeat, and only the open branch starts a timer.\<close>

lemma createBotSession_quiet:
  "intervals (snd (createBotSession w k s)) = intervals s
   \<and> heartbeats sid (trace (snd (createBotSession w k s))) = heartbeats sid (trace s)"
proof -
  from createBotSession_try_cases [of w k s]
  show ?thesis
  proof
    assume "\<exists>e tr. createBotSession_try w k s = (Inl e, s\<lparr>trace := trace s @ tr\<rparr>)"
    then obtain e s1 where t: "createBotSession_try w k s = (Inl e, s1)" by blast
    have h: "heartbeats sid (trace s1) = heartbeats sid (trace s)"
      using createBotSession_try_frame [OF t] by (simp add: heartbeats_def)
    show ?thesis
      using createBotSession_try_frame [OF t] h
      by (simp add: createBotSession_def t try_catch_def then_js_def sendWebhook_eq emit_def
          heartbeats_append heartbeats_webhook)
  next
    assume "\<exists>a v sk. useMultiFileAuthState w (''./sessions/'' @ k) = Inr a
        \<and> fetchLatestBaileysVersion w = Inr v \<and> makeWASocket w v a = Inr sk
        \<and> createBotSession_try w k s
            = (Inr sk, s\<lparr>trace := trace s @ [UseMultiFileAuthState (''./sessions/'' @ k),
                  FetchLatestBaileysVersion, MakeWASocket, EvOn sk ''connection.update'',
                  EvOn sk ''creds.update'', EvOn sk ''messages.upsert''],
                activeSessions := map_set k sk (activeSessions s)\<rparr>)"
    then obtain sk where t: "createBotSession_try w k s
            = (Inr sk, s\<lparr>trace := trace s @ [UseMultiFileAuthState (''./sessions/'' @ k),
                  FetchLatestBaileysVersion, MakeWASocket, EvOn sk ''connection.update'',
                  EvOn sk ''creds.update'', EvOn sk ''messages.upsert''],
                activeSessions := map_set k sk (activeSessions s)\<rparr>)"
      by blast
    show ?thesis
      by (simp add: createBotSession_ok [OF t] heartbeats_append)
  qed
qed

lemma bot_create_quiet:
  "intervals (snd (bot_create w k s)) = intervals s
   \<and> heartbeats sid (trace (snd (bot_create w k s))) = heartbeats sid (trace s)"
proof -
  let ?s0 = "emit (LogInfo (''Creating bot session: '' @ the k)) s"
  have "intervals (snd (createBotSession w (the k) ?s0)) = intervals s
      \<and> heartbeats sid (trace (snd (createBotSession w (the k) ?s0))) = heartbeats sid (trace s)"
    using createBotSession_quiet [of w "the k" ?s0 sid]
    by (simp add: emit_def heartbeats_append)
  then show ?thesis
    by (cases "createBotSession w (the k) ?s0"; cases "fst (createBotSession w (the k) ?s0)")
       (simp_all add: bot_create_def then_js_def)
qed

lemma bot_destroy_quiet:
  "intervals (snd (bot_destroy w k s)) = intervals s
   \<and> heartbeats sid (trace (snd (bot_destroy w k s))) = heartbeats sid (trace s)"
  by (simp add: bot_destroy_def then_js_def try_catch_def call_def emit_def heartbeats_append
      split: option.splits sum.splits)

lemma on_messages_upsert_quiet:
  "intervals (snd (on_messages_upsert w k sk m s)) = intervals s
   \<and> heartbeats sid (trace (snd (on_messages_upsert w k sk m s))) = heartbeats sid (trace s)"
  by (simp add: on_messages_upsert_def forwardToLaravel_def Let_def then_js_def try_catch_def
      call_def emit_def heartbeats_append split: list.splits sum.splits)

lemma qr_step_quiet:
  "intervals (snd (qr_step w k u s)) = intervals s
   \<and> next_handle (snd (qr_step w k u s)) = next_handle s
   \<and> heartbeats sid (trace (snd (qr_step w k u s))) = heartbeats sid (trace s)"
  by (simp add: qr_step_def then_js_def call_def emit_def sendWebhook_eq heartbeats_append
      heartbeats_webhook split: sum.splits)

lemma on_connection_update_quiet:
  "heartbeats sid (trace (snd (on_connection_update w k sk u s))) = heartbeats sid (trace s)
   \<and> (intervals (snd (on_connection_update w k sk u s)) = intervals s
      \<or> connection u = Some ''open''
        \<and> intervals (snd (on_connection_update w k sk u s))
            = intervals s @ [\<lparr>handle = next_handle s, delay_ms = 30000, timer_sid = k\<rparr>])"
proof (cases "qr_step w k u s")
  case (Pair r s1)
  have fr: "intervals s1 = intervals s" "next_handle s1 = next_handle s"
    "heartbeats sid (trace s1) = heartbeats sid (trace s)"
    using qr_step_quiet [of w k u s sid] Pair by simp_all
  show ?thesis
    by (cases r)
       (simp_all add: on_connection_update_def Pair then_js_def close_branch_def open_branch_def
        Let_def sendWebhook_eq setTimeout_def startHeartbeat_def emit_def fr
        heartbeats_append heartbeats_webhook split: option.splits)
qed

lemma heartbeat_tick_absent:
  "\<not> map_has (timer_sid t) (activeSessions s) \<Longrightarrow>
     heartbeat_tick w t s = (Inr (), clearInterval (handle t) s)"
  by (simp add: heartbeat_tick_def)

lemma heartbeat_tick_present:
  "map_has (timer_sid t) (activeSessions s) \<Longrightarrow>
     heartbeat_tick w t s
       = (Inr (), s\<lparr>trace := trace s
                      @ webhook_effects w ''/api/webhook/wa/heartbeat'' (Heartbeat (timer_sid t))\<rparr>)"
  by (simp add: heartbeat_tick_def sendWebhook_eq try_catch_def)

lemma step_without_timer:
  assumes "\<forall>t\<in>set (intervals s). timer_sid t \<noteq> sid"
    and "\<not> is_open_event sid e"
  shows "(\<forall>t\<in>set (intervals (step w e s)). timer_sid t \<noteq> sid)
       \<and> heartbeats sid (trace (step w e s)) = heartbeats sid (trace s)"
proof (cases e)
  case (PostBotCreate k)
  then show ?thesis using assms(1) bot_create_quiet [of w k s sid] by simp
next
  case (PostBotDestroy k)
  then show ?thesis using assms(1) bot_destroy_quiet [of w k s sid] by simp
next
  case (ConnectionUpdateEvent k sk u)
  with assms(2) have "k \<noteq> sid \<or> connection u \<noteq> Some ''open''"
    by (auto simp: is_open_event_def)
  with ConnectionUpdateEvent show ?thesis
    using assms(1) on_connection_update_quiet [of sid w k sk u s] by auto
next
  case (MessagesUpsertEvent k sk m)
  then show ?thesis using assms(1) on_messages_upsert_quiet [of w k sk m s sid] by simp
next
  case (IntervalFires h)
  show ?thesis
  proof (cases "find (\<lambda>t. handle t = h) (intervals s)")
    case None
    with IntervalFires show ?thesis using assms(1) by simp
  next
    case (Some t)
    then have "t \<in> set (intervals s)"
      by (auto simp: find_Some_iff)
    with assms(1) have neq: "timer_sid t \<noteq> sid" by blast
    show ?thesis
    proof (cases "map_has (timer_sid t) (activeSessions s)")
      case True
      with IntervalFires Some neq show ?thesis
        using assms(1) by (simp add: heartbeat_tick_present heartbeats_append heartbeats_webhook)
    next
      case False
      with IntervalFires Some show ?thesis
        using assms(1) by (simp add: heartbeat_tick_absent clearInterval_def)
    qed
  qed
next
  case (TimeoutFires h)
  show ?thesis
  proof (cases "find (\<lambda>t. handle t = h) (timeouts s)")
    case None
    with TimeoutFires show ?thesis using assms(1) by simp
  next
    case (Some t)
    with TimeoutFires show ?thesis
      using assms(1)
        createBotSession_quiet [of w "timer_sid t"
          "s\<lparr>timeouts := filter (\<lambda>t. handle t \<noteq> h) (timeouts s)\<rparr>" sid]
      by simp
  qed
qed

lemma run_without_timer:
  assumes "\<forall>t\<in>set (intervals s). timer_sid t \<noteq> sid"
    and "\<forall>x\<in>set es. \<not> is_open_event sid (snd x)"
  shows "heartbeats sid (trace (run es s)) = heartbeats sid (trace s)"
  using assms
proof (induction es arbitrary: s)
  case Nil
  then show ?case by simp
next
  case (Cons x es)
  obtain w e where x: "x = (w, e)" by (cases x)
  from Cons.prems x have ne: "\<not> is_open_event sid e" by simp
  note st = step_without_timer [OF Cons.prems(1) ne, of w]
  have "heartbeats sid (trace (run es (step w e s))) = heartbeats sid (trace (step w e s))"
    using Cons.IH [of "step w e s"] st Cons.prems(2) by simp
  with st x show ?case by simp
qed

lemma opened_state_fields:
  "intervals opened_state = [s1_timer] \<and> activeSessions opened_state = [(''s1'', alice_sock)]
   \<and> heartbeats ''s1'' (trace opened_state) = []"
  by (simp add: opened_state_def s1_timer_def init_state_def online_def alice_sock_def
      open_update_def handler_defs)

lemma destroyed_state_fields:
  "intervals destroyed_state = [s1_timer] \<and> activeSessions destroyed_state = []
   \<and> heartbeats ''s1'' (trace destroyed_state) = []"
  using opened_state_fields
  by (simp add: destroyed_state_def bot_destroy_quiet)
     (simp add: online_def handler_defs)

text \<open>
  C6 against the code. The timer is cancelled by nothing but its own look at the
  registry on a tick. Session \<open>s1\<close> is open with its timer running and is destroyed: it is
  absent from the registry and no heartbeat has been sent. It is created again before
  the timer's next tick, and no open event follows. The old timer then ticks twice: it
  does not cancel itself, both ticks send a heartbeat for \<open>s1\<close>, and the timer is still
  live. Heartbeats have not stopped within one tick of the removal, and they go on
  without a fresh open event.
\<close>

theorem recreated_session_keeps_stale_timer:
  "\<not> map_has ''s1'' (activeSessions destroyed_state)
   \<and> heartbeats ''s1'' (trace destroyed_state) = []
   \<and> heartbeats ''s1'' (trace (run [(online alice_sock, PostBotCreate (Some ''s1'')),
                                     (online alice_sock, IntervalFires 0),
                                     (online alice_sock, IntervalFires 0)] destroyed_state))
       = [(''http://localhost:8000/api/webhook/wa/heartbeat'', Heartbeat ''s1'', Some 5000),
          (''http://localhost:8000/api/webhook/wa/heartbeat'', Heartbeat ''s1'', Some 5000)]
   \<and> intervals (run [(online alice_sock, PostBotCreate (Some ''s1'')),
                      (online alice_sock, IntervalFires 0),
                      (online alice_sock, IntervalFires 0)] destroyed_state) = [s1_timer]"
  by (simp add: destroyed_state_def opened_state_def s1_timer_def init_state_def online_def
      alice_sock_def open_update_def handler_defs heartbeats_append)

text \<open>
  C4 against the code. Session \<open>s1\<close> is created and opens (timer 0 starts); the connection
  drops for a cause other than logout, which keeps the registry entry and schedules the
  reconnect (handle 1); the reconnect replaces the socket under the same key, and the new
  socket opens (timer 2 starts). Two heartbeat timers are now live for \<open>s1\<close>, and in the
  next period each of them sends a heartbeat.
\<close>

theorem reconnect_leaves_two_timers:
  "intervals (run [(online alice_sock, PostBotCreate (Some ''s1'')),
                   (online alice_sock, ConnectionUpdateEvent ''s1'' alice_sock open_update),
                   (online alice_sock, ConnectionUpdateEvent ''s1'' alice_sock drop_update),
                   (online alice_device_sock, TimeoutFires 1),
                   (online alice_device_sock, ConnectionUpdateEvent ''s1'' alice_device_sock open_update)]
                init_state)
     = [\<lparr>handle = 0, delay_ms = 30000, timer_sid = ''s1''\<rparr>,
        \<lparr>handle = 2, delay_ms = 30000, timer_sid = ''s1''\<rparr>]
   \<and> activeSessions
       (run [(online alice_sock, PostBotCreate (Some ''s1'')),
             (online alice_sock, ConnectionUpdateEvent ''s1'' alice_sock open_update),
             (online alice_sock, ConnectionUpdateEvent ''s1'' alice_sock drop_update),
             (online alice_device_sock, TimeoutFires 1),
             (online alice_device_sock, ConnectionUpdateEvent ''s1'' alice_device_sock open_update)]
          init_state)
     = [(''s1'', alice_device_sock)]
   \<and> heartbeats ''s1''
       (trace (run [(online alice_sock, PostBotCreate (Some ''s1'')),
                    (online alice_sock, ConnectionUpdateEvent ''s1'' alice_sock open_update),
                    (online alice_sock, ConnectionUpdateEvent ''s1'' alice_sock drop_update),
                    (online alice_device_sock, TimeoutFires 1),
                    (online alice_device_sock, ConnectionUpdateEvent ''s1'' alice_device_sock open_update),
                    (online alice_device_sock, IntervalFires 0),
                    (online alice_device_sock, IntervalFires 2)]
                init_state))
     = [(''http://localhost:8000/api/webhook/wa/heartbeat'', Heartbeat ''s1'', Some 5000),
        (''http://localhost:8000/api/webhook/wa/heartbeat'', Heartbeat ''s1'', Some 5000)]"
  by (simp add: init_state_def online_def alice_sock_def alice_device_sock_def open_update_def
      drop_update_def handler_defs heartbeats_append)

end
